theory Spec2Isabelle
  imports Main "HOL-Library.Word" "HOL-Library.Sublist"
begin

section \<open>Python string primitives used by \<open>graph.py\<close>\<close>

text \<open>
  Python strings are modelled as \<open>string\<close> (lists of characters). Only
  \<open>str.endswith\<close>, \<open>str.replace\<close>, concatenation (f-strings) and truthiness are used
  by the source, and each of them acts on the sequence of characters alone.
\<close>

definition startswith :: "string \<Rightarrow> string \<Rightarrow> bool" where
  "startswith s p = (take (length p) s = p)"

definition endswith :: "string \<Rightarrow> string \<Rightarrow> bool" where
  "endswith s suf = (length suf \<le> length s \<and> drop (length s - length suf) s = suf)"

text \<open>\<open>sub in s\<close>: \<open>sub\<close> occurs in \<open>s\<close> as a contiguous substring.\<close>

fun contains :: "string \<Rightarrow> string \<Rightarrow> bool" where
  "contains [] sub = (sub = [])"
| "contains (c # cs) sub = (startswith (c # cs) sub \<or> contains cs sub)"

text \<open>
  \<open>s.replace(old, new)\<close> for a non-empty \<open>old\<close>: scan from the left; at an
  occurrence of \<open>old\<close> emit \<open>new\<close> and continue after the occurrence, otherwise
  copy one character.
\<close>

function replace_scan :: "string \<Rightarrow> string \<Rightarrow> string \<Rightarrow> string" where
  "replace_scan old new [] = []"
| "replace_scan old new (c # cs) =
     (if old \<noteq> [] \<and> startswith (c # cs) old
      then new @ replace_scan old new (drop (length old) (c # cs))
      else c # replace_scan old new cs)"
  by pat_completeness auto
termination
  by (relation "measure (\<lambda>(old, new, s). length s)") (auto simp: neq_Nil_conv)

text \<open>
  \<open>s.replace(old, new)\<close>. For the empty \<open>old\<close> Python inserts \<open>new\<close> before every
  character and at the end.
\<close>

definition str_replace :: "string \<Rightarrow> string \<Rightarrow> string \<Rightarrow> string" where
  "str_replace s old new =
     (if old = [] then new @ concat (map (\<lambda>c. c # new) s) else replace_scan old new s)"

text \<open>
  Truthiness of a value that is \<open>None\<close> or a \<open>str\<close>: \<open>None\<close> and the empty string
  are false. \<open>a or b\<close> is \<open>a\<close> when \<open>a\<close> is true and \<open>b\<close> otherwise; \<open>or_str\<close> is
  the case where the right operand is a string, so that the result is one.
\<close>

definition truthy :: "string option \<Rightarrow> bool" where
  "truthy v = (case v of None \<Rightarrow> False | Some s \<Rightarrow> s \<noteq> [])"

definition py_or :: "string option \<Rightarrow> string option \<Rightarrow> string option" where
  "py_or a b = (if truthy a then a else b)"

definition or_str :: "string option \<Rightarrow> string \<Rightarrow> string" where
  "or_str a b = (case a of None \<Rightarrow> b | Some s \<Rightarrow> if s \<noteq> [] then s else b)"

section \<open>Configuration resolution in \<open>GraphImage.__init__\<close>\<close>

text \<open>\<open>os.environ\<close> is a dictionary from names to strings; \<open>.get\<close> is the lookup.\<close>

type_synonym environment = "string \<rightharpoonup> string"

text \<open>\<open>url = base_url or os.environ.get('ZABBIX_SERVER') or 'http://localhost/zabbix'\<close>\<close>

definition resolved_url :: "environment \<Rightarrow> string option \<Rightarrow> string" where
  "resolved_url env base_url =
     or_str (py_or base_url (env ''ZABBIX_SERVER'')) ''http://localhost/zabbix''"

text \<open>\<open>username or os.environ.get('ZABBIX_USER') or 'Admin'\<close>\<close>

definition resolved_username :: "environment \<Rightarrow> string option \<Rightarrow> string" where
  "resolved_username env username =
     or_str (py_or username (env ''ZABBIX_USER'')) ''Admin''"

text \<open>\<open>password or os.environ.get('ZABBIX_PASSWORD') or 'zabbix'\<close>\<close>

definition resolved_password :: "environment \<Rightarrow> string option \<Rightarrow> string" where
  "resolved_password env password =
     or_str (py_or password (env ''ZABBIX_PASSWORD'')) ''zabbix''"

text \<open>
  \<open>self.BASE_URL = url.replace("/api_jsonrpc.php", "") if not
  url.endswith('/api_jsonrpc.php') else url\<close>
\<close>

definition api_suffix :: string where
  "api_suffix = ''/api_jsonrpc.php''"

definition stored_base_url :: "string \<Rightarrow> string" where
  "stored_base_url url =
     (if \<not> endswith url api_suffix then str_replace url api_suffix [] else url)"

section \<open>The environment: network, file system, standard output\<close>

text \<open>
  Image data is opaque: a byte is an 8-bit word, a chunk is a list of bytes.
\<close>

type_synonym byte = "8 word"
type_synonym bytes = "byte list"

text \<open>
  Exceptions are values. \<open>NotImplementedError\<close> carries its message; the failures of
  the transport layer (\<open>requests\<close>) and of the operating system are not told apart
  further.
\<close>

datatype exn = NotImplementedError string | RequestException | OSError

text \<open>
  What \<open>iter_content\<close> does at each step of the \<open>for\<close> loop: it yields a chunk
  (possibly an empty keep-alive chunk) or raises. The iterator ends with the list.
\<close>

datatype stream_event = Chunk bytes | Stream_error

record response =
  status_code :: nat
  set_cookies :: "(string \<times> string) list"
  iter_content :: "nat \<Rightarrow> stream_event list"

datatype http_method = GET | POST

record request =
  req_method :: http_method
  req_url :: string
  req_data :: "(string \<times> string) list"
  req_stream :: bool
  req_cookies :: "(string \<times> string) list"

text \<open>Everything the program does to the outside, in the order it does it.\<close>

datatype event =
    Validate_times string string
  | Http request
  | Open_wb string
  | Write_file string bytes
  | Close_file string
  | Write_stdout bytes
  | Close_response

text \<open>
  The world holds what the program reads (\<open>os.environ\<close>, \<open>os.getcwd()\<close>), what it
  writes (files, the open file handles, \<open>sys.stdout.buffer\<close>), the trace of its
  actions, and the behaviour of the outside: how the network answers a request and
  whether opening or writing succeeds, each as a function of the trace so far.
\<close>

record world =
  environ :: environment
  getcwd :: string
  network :: "event list \<Rightarrow> request \<Rightarrow> exn + response"
  open_ok :: "event list \<Rightarrow> string \<Rightarrow> bool"
  write_ok :: "event list \<Rightarrow> bool"
  files :: "string \<rightharpoonup> bytes"
  open_files :: "string list"
  stdout :: bytes
  trace :: "event list"

definition log :: "event \<Rightarrow> world \<Rightarrow> world" where
  "log e w = w\<lparr>trace := trace w @ [e]\<rparr>"

subsection \<open>\<open>requests.Session\<close>\<close>

text \<open>
  A session keeps the cookies the server has set and sends them with every request.
  A request is issued (and logged) before its outcome is known; a transport failure
  raises, any HTTP response is returned whatever its status code.
\<close>

record session =
  cookies :: "(string \<times> string) list"

definition new_session :: session where
  "new_session = \<lparr>cookies = []\<rparr>"

definition session_request ::
  "session \<Rightarrow> request \<Rightarrow> world \<Rightarrow> (exn + response) \<times> session \<times> world" where
  "session_request s req w =
     (case network w (trace w) req of
        Inl e \<Rightarrow> (Inl e, s, log (Http req) w)
      | Inr r \<Rightarrow> (Inr r, s\<lparr>cookies := cookies s @ set_cookies r\<rparr>, log (Http req) w))"

text \<open>\<open>SESSION.post(url, data=payload)\<close>\<close>

definition session_post ::
  "session \<Rightarrow> string \<Rightarrow> (string \<times> string) list \<Rightarrow> world
     \<Rightarrow> (exn + response) \<times> session \<times> world" where
  "session_post s u payload w =
     session_request s
       \<lparr>req_method = POST, req_url = u, req_data = payload, req_stream = False,
        req_cookies = cookies s\<rparr> w"

text \<open>\<open>SESSION.get(url, stream=True)\<close>\<close>

definition session_get ::
  "session \<Rightarrow> string \<Rightarrow> bool \<Rightarrow> world \<Rightarrow> (exn + response) \<times> session \<times> world" where
  "session_get s u st w =
     session_request s
       \<lparr>req_method = GET, req_url = u, req_data = [], req_stream = st,
        req_cookies = cookies s\<rparr> w"

subsection \<open>Files and standard output\<close>

text \<open>
  \<open>open(path, 'wb')\<close> creates or truncates the file and returns a handle (the path
  stands for it); \<open>f.write\<close> appends; leaving the \<open>with\<close> block closes the handle.
\<close>

definition open_wb :: "string \<Rightarrow> world \<Rightarrow> (exn + string) \<times> world" where
  "open_wb path w =
     (if open_ok w (trace w) path
      then (Inr path,
            log (Open_wb path) (w\<lparr>files := (files w)(path \<mapsto> []),
                                   open_files := path # open_files w\<rparr>))
      else (Inl OSError, w))"

definition file_write :: "string \<Rightarrow> bytes \<Rightarrow> world \<Rightarrow> (exn + unit) \<times> world" where
  "file_write f chunk w =
     (if write_ok w (trace w)
      then (Inr (),
            log (Write_file f chunk)
              (w\<lparr>files := (files w)(f \<mapsto> (case files w f of None \<Rightarrow> [] | Some b \<Rightarrow> b) @ chunk)\<rparr>))
      else (Inl OSError, w))"

definition close_file :: "string \<Rightarrow> world \<Rightarrow> world" where
  "close_file f w = log (Close_file f) (w\<lparr>open_files := remove1 f (open_files w)\<rparr>)"

text \<open>\<open>sys.stdout.buffer.write(chunk)\<close>\<close>

definition stdout_write :: "bytes \<Rightarrow> world \<Rightarrow> (exn + unit) \<times> world" where
  "stdout_write chunk w =
     (if write_ok w (trace w)
      then (Inr (), log (Write_stdout chunk) (w\<lparr>stdout := stdout w @ chunk\<rparr>))
      else (Inl OSError, w))"

section \<open>The class \<open>GraphImage\<close>\<close>

record GraphImage =
  BASE_URL :: string
  SESSION :: session

subsection \<open>\<open>__init__\<close>\<close>

definition login_payload ::
  "environment \<Rightarrow> string option \<Rightarrow> string option \<Rightarrow> (string \<times> string) list" where
  "login_payload env username password =
     [(''name'', resolved_username env username),
      (''password'', resolved_password env password),
      (''enter'', ''Sign in'')]"

definition init ::
  "string option \<Rightarrow> string option \<Rightarrow> string option \<Rightarrow> world
     \<Rightarrow> (exn + GraphImage) \<times> world" where
  "init base_url username password w =
     (let url = resolved_url (environ w) base_url;
          base = stored_base_url url;
          payload = login_payload (environ w) username password
      in case session_post new_session (base @ ''/index.php'') payload w of
           (Inl e, s, w') \<Rightarrow> (Inl e, w')
         | (Inr r, s, w') \<Rightarrow> (Inr \<lparr>BASE_URL = base, SESSION = s\<rparr>, w'))"

subsection \<open>\<open>_validate_times\<close>\<close>

text \<open>The body is \<open>pass\<close>: the call is recorded in the trace and nothing else happens.\<close>

definition validate_times ::
  "GraphImage \<Rightarrow> string \<Rightarrow> string \<Rightarrow> world \<Rightarrow> (exn + unit) \<times> world" where
  "validate_times self from_date to_date w = (Inr (), log (Validate_times from_date to_date) w)"

subsection \<open>\<open>get_by_graph_id\<close>\<close>

text \<open>The loop of the \<open>save\<close> branch, over what \<open>iter_content\<close> produces.\<close>

fun save_chunks :: "string \<Rightarrow> stream_event list \<Rightarrow> world \<Rightarrow> (exn + unit) \<times> world" where
  "save_chunks f [] w = (Inr (), w)"
| "save_chunks f (Stream_error # rest) w = (Inl RequestException, w)"
| "save_chunks f (Chunk chunk # rest) w =
     (if chunk \<noteq> []
      then (case file_write f chunk w of
              (Inl e, w') \<Rightarrow> (Inl e, w')
            | (Inr u, w') \<Rightarrow> save_chunks f rest w')
      else save_chunks f rest w)"

text \<open>The loop of the \<open>else\<close> branch.\<close>

fun print_chunks :: "stream_event list \<Rightarrow> world \<Rightarrow> (exn + unit) \<times> world" where
  "print_chunks [] w = (Inr (), w)"
| "print_chunks (Stream_error # rest) w = (Inl RequestException, w)"
| "print_chunks (Chunk chunk # rest) w =
     (if chunk \<noteq> []
      then (case stdout_write chunk w of
              (Inl e, w') \<Rightarrow> (Inl e, w')
            | (Inr u, w') \<Rightarrow> print_chunks rest w')
      else print_chunks rest w)"

text \<open>\<open>output_path = output_path or os.getcwd()\<close>\<close>

definition resolved_output_path :: "world \<Rightarrow> string option \<Rightarrow> string" where
  "resolved_output_path w output_path = or_str output_path (getcwd w)"

definition chart_url ::
  "GraphImage \<Rightarrow> string \<Rightarrow> string \<Rightarrow> string \<Rightarrow> string \<Rightarrow> string \<Rightarrow> string" where
  "chart_url self graph_id from_date to_date width height =
     BASE_URL self @ ''/chart2.php?graphid='' @ graph_id @ ''&from='' @ from_date
       @ ''&to='' @ to_date @ ''&profileIdx=web.graphs.filter&width='' @ width
       @ ''&height='' @ height"

definition png_path :: "string \<Rightarrow> string \<Rightarrow> string" where
  "png_path output_path graph_id = output_path @ ''/graph-'' @ graph_id @ ''.png''"

text \<open>The body of \<open>with self.SESSION.get(...) as image\<close>.\<close>

definition write_image ::
  "response \<Rightarrow> string \<Rightarrow> bool \<Rightarrow> string option \<Rightarrow> world \<Rightarrow> (exn + unit) \<times> world" where
  "write_image img graph_id save output_path w =
     (if save
      then (case open_wb (png_path (resolved_output_path w output_path) graph_id) w of
              (Inl e, w') \<Rightarrow> (Inl e, w')
            | (Inr f, w') \<Rightarrow>
                (case save_chunks f (iter_content img 8192) w' of
                   (res, w'') \<Rightarrow> (res, close_file f w'')))
      else print_chunks (iter_content img 8192) w)"

definition get_by_graph_id ::
  "GraphImage \<Rightarrow> string \<Rightarrow> string \<Rightarrow> string \<Rightarrow> string \<Rightarrow> string \<Rightarrow> bool \<Rightarrow> string option
     \<Rightarrow> world \<Rightarrow> (exn + unit) \<times> GraphImage \<times> world" where
  "get_by_graph_id self graph_id from_date to_date width height save output_path w =
     (case validate_times self from_date to_date w of
        (Inl e, w1) \<Rightarrow> (Inl e, self, w1)
      | (Inr u, w1) \<Rightarrow>
          (case session_get (SESSION self)
                  (chart_url self graph_id from_date to_date width height) True w1 of
             (Inl e, s, w2) \<Rightarrow> (Inl e, self\<lparr>SESSION := s\<rparr>, w2)
           | (Inr img, s, w2) \<Rightarrow>
               (case write_image img graph_id save output_path w2 of
                  (res, w3) \<Rightarrow> (res, self\<lparr>SESSION := s\<rparr>, log Close_response w3))))"

text \<open>The defaults of the signature.\<close>

definition default_from_date :: string where "default_from_date = ''now-1d''"
definition default_to_date :: string where "default_to_date = ''now''"
definition default_width :: string where "default_width = ''1782''"
definition default_height :: string where "default_height = ''452''"

subsection \<open>\<open>get_by_itemids\<close>\<close>

text \<open>
  The parameter \<open>type\<close> is annotated \<open>str\<close> and defaults to the integer \<open>1\<close>; both
  kinds of value are admitted.
\<close>

datatype graph_type = Type_int int | Type_str string

definition get_by_itemids ::
  "GraphImage \<Rightarrow> string list \<Rightarrow> graph_type \<Rightarrow> string \<Rightarrow> string \<Rightarrow> string \<Rightarrow> string \<Rightarrow> bool
     \<Rightarrow> string option \<Rightarrow> world \<Rightarrow> (exn + unit) \<times> GraphImage \<times> world" where
  "get_by_itemids self item_ids type from_date to_date width height save output_path w =
     (Inl (NotImplementedError ''Not yet added''), self, w)"

section \<open>Observing a run\<close>

text \<open>The events a call has added to the trace, given the worlds before and after.\<close>

definition new_events :: "world \<Rightarrow> world \<Rightarrow> event list" where
  "new_events w w' = drop (length (trace w)) (trace w')"

fun is_http :: "event \<Rightarrow> bool" where
  "is_http (Http r) = True"
| "is_http e = False"

text \<open>A write of a zero-length chunk, to a file or to standard output.\<close>

fun is_empty_write :: "event \<Rightarrow> bool" where
  "is_empty_write (Write_file f chunk) = (chunk = [])"
| "is_empty_write (Write_stdout chunk) = (chunk = [])"
| "is_empty_write e = False"

text \<open>Opening and closing of file handles.\<close>

fun is_handle_event :: "event \<Rightarrow> bool" where
  "is_handle_event (Open_wb f) = True"
| "is_handle_event (Close_file f) = True"
| "is_handle_event e = False"

text \<open>The bytes an event sends to standard output.\<close>

fun stdout_payload :: "event \<Rightarrow> bytes" where
  "stdout_payload (Write_stdout chunk) = chunk"
| "stdout_payload e = []"

text \<open>
  A stretch of the trace with no HTTP request, no zero-length write and no opening or
  closing of a file.
\<close>

definition quiet :: "event list \<Rightarrow> bool" where
  "quiet es = (filter is_http es = [] \<and> filter is_empty_write es = []
     \<and> filter is_handle_event es = [])"

text \<open>The request that \<open>get_by_graph_id\<close> hands to \<open>SESSION.get\<close>.\<close>

definition chart_request ::
  "GraphImage \<Rightarrow> string \<Rightarrow> string \<Rightarrow> string \<Rightarrow> string \<Rightarrow> string \<Rightarrow> request" where
  "chart_request self graph_id from_date to_date width height =
     \<lparr>req_method = GET,
      req_url = chart_url self graph_id from_date to_date width height,
      req_data = [], req_stream = True, req_cookies = cookies (SESSION self)\<rparr>"

text \<open>The request that \<open>__init__\<close> hands to \<open>SESSION.post\<close>.\<close>

definition login_request ::
  "environment \<Rightarrow> string option \<Rightarrow> string option \<Rightarrow> string option \<Rightarrow> request" where
  "login_request env base_url username password =
     \<lparr>req_method = POST,
      req_url = stored_base_url (resolved_url env base_url) @ ''/index.php'',
      req_data = login_payload env username password,
      req_stream = False, req_cookies = []\<rparr>"

section \<open>A sample world\<close>

text \<open>
  A server that answers every request with status 403, a session cookie and a body
  of three chunks, the second one an empty keep-alive chunk; a file system and a
  standard output that accept everything.
\<close>

definition sample_response :: response where
  "sample_response =
     \<lparr>status_code = 403,
      set_cookies = [(''zbx_sessionid'', ''0f3a'')],
      iter_content = (\<lambda>n. [Chunk [137, 80], Chunk [], Chunk [78, 71]])\<rparr>"

definition sample_world :: world where
  "sample_world =
     \<lparr>environ = Map.empty(''ZABBIX_USER'' \<mapsto> ''monitor''),
      getcwd = ''/home/zbx'',
      network = (\<lambda>t r. Inr sample_response),
      open_ok = (\<lambda>t p. True),
      write_ok = (\<lambda>t. True),
      files = Map.empty, open_files = [], stdout = [], trace = []\<rparr>"

definition sample_self :: GraphImage where
  "sample_self = \<lparr>BASE_URL = ''https://zbx.example.com/zabbix'',
                   SESSION = \<lparr>cookies = [(''zbx_sessionid'', ''0f3a'')]\<rparr>\<rparr>"

text \<open>The same world with a stream that breaks after the first chunk.\<close>

definition broken_world :: world where
  "broken_world =
     sample_world\<lparr>network := (\<lambda>t r. Inr (sample_response\<lparr>iter_content :=
        (\<lambda>n. [Chunk [137, 80], Stream_error, Chunk [78, 71]])\<rparr>))\<rparr>"

section \<open>Properties of the string primitives\<close>

lemma startswith_prefix: "startswith s p \<longleftrightarrow> prefix p s"
  unfolding startswith_def
  by (metis append_eq_conv_conj prefix_def take_is_prefix)

lemma endswith_suffix: "endswith s suf \<longleftrightarrow> suffix suf s"
  unfolding endswith_def
  by (metis suffix_def suffix_drop suffix_length_le append_eq_conv_conj length_append
      add_diff_cancel_right')

lemma contains_sublist: "contains s sub \<longleftrightarrow> sublist sub s"
proof (induction s)
  case Nil
  show ?case by simp
next
  case (Cons c cs)
  show ?case
  proof (cases sub)
    case Nil
    then show ?thesis by (simp add: startswith_def)
  next
    case (Cons a as)
    then show ?thesis using Cons.IH
      by (simp add: startswith_prefix sublist_Cons_right)
  qed
qed

lemma replace_scan_absent:
  "\<not> contains s old \<Longrightarrow> replace_scan old new s = s"
  by (induction s) auto



lemma api_suffix_nonempty: "api_suffix \<noteq> []"
  by (simp add: api_suffix_def)

lemmas resolve_defs =
  resolved_url_def resolved_username_def resolved_password_def py_or_def or_str_def truthy_def

lemmas string_defs =
  stored_base_url_def api_suffix_def endswith_def startswith_def str_replace_def

section \<open>Configuration precedence\<close>

text \<open>
  Claim C1, as the code has it. Each of the three fields is resolved through Python's
  \<open>or\<close>, which tests truthiness: a non-empty explicit argument is the value used,
  whatever the environment holds; when the argument is \<open>None\<close> or empty, a non-empty
  environment variable (\<open>ZABBIX_SERVER\<close>, \<open>ZABBIX_USER\<close>, \<open>ZABBIX_PASSWORD\<close>) is
  the value used; when that is unset or empty too, the hardcoded default
  (\<open>http://localhost/zabbix\<close>, \<open>Admin\<close>, \<open>zabbix\<close>) is used.
\<close>

theorem resolution_precedence:
  "(a \<noteq> [] \<longrightarrow>
      resolved_url env (Some a) = a \<and>
      resolved_username env (Some a) = a \<and>
      resolved_password env (Some a) = a) \<and>
   (\<not> truthy arg \<and> e \<noteq> [] \<longrightarrow>
      (env ''ZABBIX_SERVER'' = Some e \<longrightarrow> resolved_url env arg = e) \<and>
      (env ''ZABBIX_USER'' = Some e \<longrightarrow> resolved_username env arg = e) \<and>
      (env ''ZABBIX_PASSWORD'' = Some e \<longrightarrow> resolved_password env arg = e)) \<and>
   (\<not> truthy arg \<longrightarrow>
      (\<not> truthy (env ''ZABBIX_SERVER'') \<longrightarrow> resolved_url env arg = ''http://localhost/zabbix'') \<and>
      (\<not> truthy (env ''ZABBIX_USER'') \<longrightarrow> resolved_username env arg = ''Admin'') \<and>
      (\<not> truthy (env ''ZABBIX_PASSWORD'') \<longrightarrow> resolved_password env arg = ''zabbix''))"
  by (auto simp: resolve_defs split: option.splits)

theorem resolution_precedence_witness:
  "resolved_url (Map.empty(''ZABBIX_SERVER'' \<mapsto> ''http://env'')) (Some ''http://arg'') = ''http://arg''
   \<and> resolved_username (Map.empty(''ZABBIX_USER'' \<mapsto> ''envuser'')) None = ''envuser''
   \<and> resolved_url (Map.empty(''ZABBIX_SERVER'' \<mapsto> ''http://env'')) None = ''http://env''
   \<and> resolved_password (Map.empty(''ZABBIX_PASSWORD'' \<mapsto> ''envpw'')) None = ''envpw''
   \<and> resolved_url Map.empty None = ''http://localhost/zabbix''
   \<and> resolved_username Map.empty None = ''Admin''
   \<and> resolved_password Map.empty None = ''zabbix''"
proof -
  have t: "\<not> truthy None" by (simp add: truthy_def)
  have 1: "resolved_url (Map.empty(''ZABBIX_SERVER'' \<mapsto> ''http://env'')) (Some ''http://arg'')
            = ''http://arg''"
    using resolution_precedence
      [of "''http://arg''" "Map.empty(''ZABBIX_SERVER'' \<mapsto> ''http://env'')" None "''e''"]
    by simp
  have 2: "resolved_username (Map.empty(''ZABBIX_USER'' \<mapsto> ''envuser'')) None = ''envuser''"
    using t resolution_precedence
      [of "''a''" "Map.empty(''ZABBIX_USER'' \<mapsto> ''envuser'')" None "''envuser''"]
    by simp
  have 3: "resolved_url (Map.empty(''ZABBIX_SERVER'' \<mapsto> ''http://env'')) None = ''http://env''"
    using t resolution_precedence
      [of "''a''" "Map.empty(''ZABBIX_SERVER'' \<mapsto> ''http://env'')" None "''http://env''"]
    by simp
  have 4: "resolved_password (Map.empty(''ZABBIX_PASSWORD'' \<mapsto> ''envpw'')) None = ''envpw''"
    using t resolution_precedence
      [of "''a''" "Map.empty(''ZABBIX_PASSWORD'' \<mapsto> ''envpw'')" None "''envpw''"]
    by simp
  have 5: "resolved_url Map.empty None = ''http://localhost/zabbix''
     \<and> resolved_username Map.empty None = ''Admin''
     \<and> resolved_password Map.empty None = ''zabbix''"
    using t resolution_precedence [of "''a''" Map.empty None "''e''"]
    by simp
  show ?thesis using 1 2 3 4 5 by blast
qed

text \<open>
  Claim C1 as stated fails: the explicit argument \<open>""\<close> does not win over the
  environment variable, and the environment variable \<open>""\<close> does not win over the
  default.
\<close>

theorem explicit_empty_argument_loses:
  "resolved_url (Map.empty(''ZABBIX_SERVER'' \<mapsto> ''http://env'')) (Some '''') = ''http://env''
   \<and> resolved_url (Map.empty(''ZABBIX_SERVER'' \<mapsto> ''http://env'')) (Some '''') \<noteq> ''''
   \<and> resolved_username (Map.empty(''ZABBIX_USER'' \<mapsto> '''')) None = ''Admin''"
  by (simp add: resolve_defs)


section \<open>The stored base URL\<close>




section \<open>Construction logs in once\<close>

lemma new_events_append [simp]: "trace w' = trace w @ es \<Longrightarrow> new_events w w' = es"
  by (simp add: new_events_def)

lemma init_login:
  "init base_url username password w =
     (case network w (trace w) (login_request (environ w) base_url username password) of
        Inl e \<Rightarrow> Inl e
      | Inr r \<Rightarrow> Inr \<lparr>BASE_URL = stored_base_url (resolved_url (environ w) base_url),
                      SESSION = \<lparr>cookies = set_cookies r\<rparr>\<rparr>,
      log (Http (login_request (environ w) base_url username password)) w)"
  by (simp add: init_def session_post_def session_request_def login_request_def new_session_def
      Let_def split: sum.splits)

text \<open>
  Claim C4. Here \<open>{base_url}\<close> is the base URL the session stores and the credentials
  are the resolved ones. For all arguments and every world, construction adds exactly
  one event to the trace: a POST to \<open>{base_url}/index.php\<close> with the form fields
  \<open>name\<close>, \<open>password\<close> and \<open>enter = "Sign in"\<close>, in this order and no others. Whenever
  the transport delivers a response, whatever its status code, construction returns
  the session object (it does not raise) with the cookies of that response. For
  non-empty explicit arguments the fields are these arguments, and for an explicit URL
  that does not contain \<open>/api_jsonrpc.php\<close> the POST goes to that URL followed by
  \<open>/index.php\<close>.
\<close>

theorem init_posts_once:
  "new_events w (snd (init base_url username password w)) =
     [Http \<lparr>req_method = POST,
            req_url = stored_base_url (resolved_url (environ w) base_url) @ ''/index.php'',
            req_data = [(''name'', resolved_username (environ w) username),
                        (''password'', resolved_password (environ w) password),
                        (''enter'', ''Sign in'')],
            req_stream = False, req_cookies = []\<rparr>]
   \<and> (network w (trace w) (login_request (environ w) base_url username password) = Inr r \<longrightarrow>
        fst (init base_url username password w) =
          Inr \<lparr>BASE_URL = stored_base_url (resolved_url (environ w) base_url),
               SESSION = \<lparr>cookies = set_cookies r\<rparr>\<rparr>)
   \<and> (b \<noteq> [] \<and> \<not> contains b api_suffix \<and> u \<noteq> [] \<and> p \<noteq> [] \<longrightarrow>
        new_events w (snd (init (Some b) (Some u) (Some p) w)) =
          [Http \<lparr>req_method = POST, req_url = b @ ''/index.php'',
                 req_data = [(''name'', u), (''password'', p), (''enter'', ''Sign in'')],
                 req_stream = False, req_cookies = []\<rparr>])"
proof -
  have tr: "trace (snd (init base_url username password w)) =
      trace w @ [Http (login_request (environ w) base_url username password)]"
    for base_url username password
    by (simp add: init_login log_def)
  have one: "new_events w (snd (init base_url username password w)) =
      [Http (login_request (environ w) base_url username password)]"
    for base_url username password
    using tr by simp
  have ok: "fst (init base_url username password w) =
          Inr \<lparr>BASE_URL = stored_base_url (resolved_url (environ w) base_url),
               SESSION = \<lparr>cookies = set_cookies r\<rparr>\<rparr>"
    if "network w (trace w) (login_request (environ w) base_url username password) = Inr r"
    using that by (simp add: init_login)
  have explicit: "login_request (environ w) (Some b) (Some u) (Some p) =
      \<lparr>req_method = POST, req_url = b @ ''/index.php'',
       req_data = [(''name'', u), (''password'', p), (''enter'', ''Sign in'')],
       req_stream = False, req_cookies = []\<rparr>"
    if "b \<noteq> []" "\<not> contains b api_suffix" "u \<noteq> []" "p \<noteq> []"
  proof -
    have "stored_base_url b = b"
      using that(2) replace_scan_absent [of b api_suffix "[]"]
      by (simp add: stored_base_url_def str_replace_def api_suffix_nonempty)
    then show ?thesis
      using that by (simp add: login_request_def login_payload_def resolve_defs)
  qed
  show ?thesis
    using one [of base_url username password] ok explicit one [of "Some b" "Some u" "Some p"]
    by (simp add: login_request_def login_payload_def)
qed

section \<open>The chart request\<close>

lemma log_fields [simp]:
  "trace (log e w) = trace w @ [e]"
  "environ (log e w) = environ w"
  "getcwd (log e w) = getcwd w"
  "network (log e w) = network w"
  "open_ok (log e w) = open_ok w"
  "write_ok (log e w) = write_ok w"
  "files (log e w) = files w"
  "open_files (log e w) = open_files w"
  "stdout (log e w) = stdout w"
  by (simp_all add: log_def)

text \<open>
  What the two loops add to the trace: writes of non-empty chunks only, and in the
  \<open>else\<close> branch standard output grows by exactly what these writes carry.
\<close>

lemma quiet_simps [simp]:
  "quiet []"
  "quiet (Write_file f chunk # es) = (chunk \<noteq> [] \<and> quiet es)"
  "quiet (Write_stdout chunk # es) = (chunk \<noteq> [] \<and> quiet es)"
  "quiet (es @ [Close_response]) = quiet es"
  by (auto simp: quiet_def)

lemma save_chunks_trace:
  "\<exists>es. trace (snd (save_chunks f evs w)) = trace w @ es \<and> quiet es"
proof (induction evs arbitrary: w)
  case Nil
  show ?case by simp
next
  case (Cons ev evs)
  show ?case
  proof (cases ev)
    case Stream_error
    then show ?thesis by simp
  next
    case (Chunk chunk)
    show ?thesis
    proof (cases "chunk \<noteq> [] \<and> write_ok w (trace w)")
      case True
      define w' where "w' = snd (file_write f chunk w)"
      have fw: "file_write f chunk w = (Inr (), w')"
        and tr: "trace w' = trace w @ [Write_file f chunk]"
        using True by (simp_all add: w'_def file_write_def)
      obtain es where es: "trace (snd (save_chunks f evs w')) = trace w' @ es" "quiet es"
        using Cons.IH by blast
      have "trace (snd (save_chunks f (ev # evs) w)) = trace w @ (Write_file f chunk # es)"
        using True Chunk fw es(1) tr by simp
      moreover have "quiet (Write_file f chunk # es)"
        using es True by simp
      ultimately show ?thesis by blast
    next
      case False
      then show ?thesis
        using Cons.IH [of w] Chunk by (auto simp: file_write_def)
    qed
  qed
qed

lemma save_chunks_frame:
  "open_files (snd (save_chunks f evs w)) = open_files w
   \<and> stdout (snd (save_chunks f evs w)) = stdout w"
  by (induction f evs w rule: save_chunks.induct) (auto simp: file_write_def)

lemma print_chunks_trace:
  "\<exists>es. trace (snd (print_chunks evs w)) = trace w @ es \<and> quiet es
     \<and> stdout (snd (print_chunks evs w)) = stdout w @ concat (map stdout_payload es)"
proof (induction evs arbitrary: w)
  case Nil
  show ?case by simp
next
  case (Cons ev evs)
  show ?case
  proof (cases ev)
    case Stream_error
    then show ?thesis by simp
  next
    case (Chunk chunk)
    show ?thesis
    proof (cases "chunk \<noteq> [] \<and> write_ok w (trace w)")
      case True
      define w' where "w' = snd (stdout_write chunk w)"
      have fw: "stdout_write chunk w = (Inr (), w')"
        and tr: "trace w' = trace w @ [Write_stdout chunk]"
        and out: "stdout w' = stdout w @ chunk"
        using True by (simp_all add: w'_def stdout_write_def)
      obtain es where es: "trace (snd (print_chunks evs w')) = trace w' @ es" "quiet es"
        "stdout (snd (print_chunks evs w')) = stdout w' @ concat (map stdout_payload es)"
        using Cons.IH by blast
      have "trace (snd (print_chunks (ev # evs) w)) = trace w @ (Write_stdout chunk # es)"
        using True Chunk fw es(1) tr by simp
      moreover have "quiet (Write_stdout chunk # es)"
        using es True by simp
      moreover have "stdout (snd (print_chunks (ev # evs) w))
          = stdout w @ concat (map stdout_payload (Write_stdout chunk # es))"
        using True Chunk fw es(3) out by simp
      ultimately show ?thesis by blast
    next
      case False
      then show ?thesis
        using Cons.IH [of w] Chunk by (auto simp: stdout_write_def)
    qed
  qed
qed

lemma print_chunks_frame:
  "open_files (snd (print_chunks evs w)) = open_files w
   \<and> files (snd (print_chunks evs w)) = files w"
  by (induction evs w rule: print_chunks.induct) (auto simp: stdout_write_def)

lemma write_image_trace:
  "\<exists>es. trace (snd (write_image img graph_id save output_path w)) = trace w @ es
     \<and> filter is_http es = [] \<and> filter is_empty_write es = []
     \<and> (filter is_handle_event es = []
          \<or> filter is_handle_event es =
               [Open_wb (png_path (resolved_output_path w output_path) graph_id),
                Close_file (png_path (resolved_output_path w output_path) graph_id)])"
proof (cases save)
  case False
  then show ?thesis
    using print_chunks_trace [of "iter_content img 8192" w]
    by (auto simp: write_image_def quiet_def)
next
  case True
  define path where "path = png_path (resolved_output_path w output_path) graph_id"
  show ?thesis
  proof (cases "open_ok w (trace w) path")
    case False
    then show ?thesis using True by (simp add: write_image_def open_wb_def path_def)
  next
    case ok: True
    define w' where "w' = snd (open_wb path w)"
    have op: "open_wb path w = (Inr path, w')" and tr: "trace w' = trace w @ [Open_wb path]"
      using ok by (simp_all add: w'_def open_wb_def)
    obtain es where es: "trace (snd (save_chunks path (iter_content img 8192) w')) = trace w' @ es"
      "quiet es"
      using save_chunks_trace by blast
    have "trace (snd (write_image img graph_id save output_path w))
        = trace w @ (Open_wb path # es @ [Close_file path])"
      using True op es(1) tr
      by (simp add: write_image_def path_def [symmetric] close_file_def case_prod_beta)
    moreover have "filter is_http (Open_wb path # es @ [Close_file path]) = []"
      "filter is_empty_write (Open_wb path # es @ [Close_file path]) = []"
      "filter is_handle_event (Open_wb path # es @ [Close_file path])
         = [Open_wb path, Close_file path]"
      using es by (simp_all add: quiet_def)
    ultimately show ?thesis unfolding path_def by blast
  qed
qed

text \<open>\<open>get_by_graph_id\<close> with the validator and the session unfolded.\<close>

lemma get_by_graph_id_unfold:
  "get_by_graph_id self graph_id from_date to_date width height save output_path w =
     (case network w (trace w @ [Validate_times from_date to_date])
             (chart_request self graph_id from_date to_date width height) of
        Inl e \<Rightarrow>
          (Inl e, self,
           log (Http (chart_request self graph_id from_date to_date width height))
             (log (Validate_times from_date to_date) w))
      | Inr img \<Rightarrow>
          (case write_image img graph_id save output_path
                  (log (Http (chart_request self graph_id from_date to_date width height))
                     (log (Validate_times from_date to_date) w)) of
             (res, w3) \<Rightarrow>
               (res, self\<lparr>SESSION := \<lparr>cookies = cookies (SESSION self) @ set_cookies img\<rparr>\<rparr>,
                log Close_response w3)))"
  by (simp add: get_by_graph_id_def validate_times_def session_get_def session_request_def
      chart_request_def split: sum.splits prod.splits)

lemma get_by_graph_id_trace:
  "\<exists>es. trace (snd (snd (get_by_graph_id self graph_id from_date to_date width height save
                            output_path w)))
       = trace w @ Validate_times from_date to_date
           # Http (chart_request self graph_id from_date to_date width height) # es
     \<and> filter is_http es = [] \<and> filter is_empty_write es = []
     \<and> (filter is_handle_event es = []
          \<or> filter is_handle_event es =
               [Open_wb (png_path (resolved_output_path w output_path) graph_id),
                Close_file (png_path (resolved_output_path w output_path) graph_id)])"
proof (cases "network w (trace w @ [Validate_times from_date to_date])
                (chart_request self graph_id from_date to_date width height)")
  case (Inl e)
  then show ?thesis by (simp add: get_by_graph_id_unfold)
next
  case (Inr img)
  define w2 where "w2 = log (Http (chart_request self graph_id from_date to_date width height))
                     (log (Validate_times from_date to_date) w)"
  have same_dir: "resolved_output_path w2 output_path = resolved_output_path w output_path"
    by (simp add: resolved_output_path_def w2_def)
  obtain es where es: "trace (snd (write_image img graph_id save output_path w2)) = trace w2 @ es"
    "filter is_http es = []" "filter is_empty_write es = []"
    "filter is_handle_event es = []
      \<or> filter is_handle_event es =
           [Open_wb (png_path (resolved_output_path w output_path) graph_id),
            Close_file (png_path (resolved_output_path w output_path) graph_id)]"
    using write_image_trace [of img graph_id save output_path w2] unfolding same_dir by blast
  have "trace (snd (snd (get_by_graph_id self graph_id from_date to_date width height save
                            output_path w)))
       = trace w @ Validate_times from_date to_date
           # Http (chart_request self graph_id from_date to_date width height)
           # (es @ [Close_response])"
    using Inr es(1) by (simp add: get_by_graph_id_unfold w2_def case_prod_beta)
  moreover have "filter is_http (es @ [Close_response]) = []"
    "filter is_empty_write (es @ [Close_response]) = []"
    "filter is_handle_event (es @ [Close_response]) = filter is_handle_event es"
    using es by simp_all
  ultimately show ?thesis using es(4) by auto
qed

text \<open>
  Claim C7. For every session object, all arguments and every world, a call of
  \<open>get_by_graph_id\<close> issues exactly one HTTP request: a GET with \<open>stream=True\<close> and no
  form data to the URL
  \<open>{BASE_URL}/chart2.php?graphid={graph_id}&from={from_date}&to={to_date}&profileIdx=web.graphs.filter&width={width}&height={height}\<close>,
  sent through the session of the object, that is, with the cookies this session
  holds. For an object that construction has just returned these are the cookies the
  login response has set.
\<close>

theorem chart_request_is_single_streaming_get:
  "filter is_http
     (new_events w (snd (snd (get_by_graph_id self graph_id from_date to_date width height
                                save output_path w)))) =
     [Http \<lparr>req_method = GET,
            req_url = BASE_URL self @ ''/chart2.php?graphid='' @ graph_id @ ''&from='' @ from_date
              @ ''&to='' @ to_date @ ''&profileIdx=web.graphs.filter&width='' @ width
              @ ''&height='' @ height,
            req_data = [], req_stream = True, req_cookies = cookies (SESSION self)\<rparr>]
   \<and> (network w0 (trace w0) (login_request (environ w0) base_url username password) = Inr r
        \<and> fst (init base_url username password w0) = Inr self
      \<longrightarrow> cookies (SESSION self) = set_cookies r)"
proof -
  obtain es where es: "trace (snd (snd (get_by_graph_id self graph_id from_date to_date width
                            height save output_path w)))
       = trace w @ Validate_times from_date to_date
           # Http (chart_request self graph_id from_date to_date width height) # es"
      "filter is_http es = []"
    using get_by_graph_id_trace by blast
  have "filter is_http
     (new_events w (snd (snd (get_by_graph_id self graph_id from_date to_date width height
                                save output_path w)))) =
     [Http (chart_request self graph_id from_date to_date width height)]"
    using es by simp
  moreover have "cookies (SESSION self) = set_cookies r"
    if "network w0 (trace w0) (login_request (environ w0) base_url username password) = Inr r"
      and "fst (init base_url username password w0) = Inr self"
    using that by (auto simp: init_login)
  ultimately show ?thesis
    by (simp add: chart_request_def chart_url_def)
qed

section \<open>The unimplemented method and the time validator\<close>

text \<open>
  Claim C8. For every object, every list of item ids, every value of the other
  parameters and every world, \<open>get_by_itemids\<close> raises
  \<open>NotImplementedError("Not yet added")\<close>: the same signal for any two inputs, never
  a normal return, and nothing is done to the object or the world before.
\<close>

theorem get_by_itemids_not_implemented:
  "fst (get_by_itemids self item_ids type from_date to_date width height save output_path w)
     = Inl (NotImplementedError ''Not yet added'')
   \<and> fst (get_by_itemids self item_ids type from_date to_date width height save output_path w)
     = fst (get_by_itemids self' item_ids' type' from_date' to_date' width' height' save'
              output_path' w')
   \<and> fst (get_by_itemids self item_ids type from_date to_date width height save output_path w)
     \<noteq> Inr ()
   \<and> snd (get_by_itemids self item_ids type from_date to_date width height save output_path w)
     = (self, w)"
  by (simp add: get_by_itemids_def)

text \<open>
  Claim C9. For every pair of dates the time validator returns normally and leaves
  the world as it was (the record of the call apart); and in every call of
  \<open>get_by_graph_id\<close> the first two actions are the call of the validator with the two
  dates as passed, and then the chart GET request.
\<close>

theorem validate_times_is_noop_called_first:
  "fst (validate_times self from_date to_date w) = Inr ()
   \<and> (snd (validate_times self from_date to_date w))\<lparr>trace := trace w\<rparr> = w
   \<and> new_events w (snd (validate_times self from_date to_date w))
       = [Validate_times from_date to_date]
   \<and> take 2 (new_events w (snd (snd (get_by_graph_id self graph_id from_date to_date width
                                        height save output_path w))))
       = [Validate_times from_date to_date,
          Http (chart_request self graph_id from_date to_date width height)]"
proof -
  obtain es where es: "trace (snd (snd (get_by_graph_id self graph_id from_date to_date width
                            height save output_path w)))
       = trace w @ Validate_times from_date to_date
           # Http (chart_request self graph_id from_date to_date width height) # es"
    using get_by_graph_id_trace by blast
  have "take 2 (new_events w (snd (snd (get_by_graph_id self graph_id from_date to_date width
                                        height save output_path w))))
       = [Validate_times from_date to_date,
          Http (chart_request self graph_id from_date to_date width height)]"
    using es by (simp add: numeral_2_eq_2)
  moreover have "(snd (validate_times self from_date to_date w))\<lparr>trace := trace w\<rparr> = w"
    by (simp add: validate_times_def log_def)
  ultimately show ?thesis
    by (simp add: validate_times_def)
qed

section \<open>Streaming the image\<close>

text \<open>When no write fails and the stream does not break, every chunk is written.\<close>

lemma save_chunks_complete:
  "\<forall>t. write_ok w t \<Longrightarrow> files w f = Some b \<Longrightarrow>
   save_chunks f (map Chunk chunks) w =
     (Inr (), w\<lparr>files := (files w)(f \<mapsto> b @ concat chunks),
               trace := trace w @ map (Write_file f) (filter (\<lambda>c. c \<noteq> []) chunks)\<rparr>)"
proof (induction chunks arbitrary: w b)
  case Nil
  then have "(files w)(f \<mapsto> b) = files w" by (simp add: map_upd_triv)
  then show ?case by simp
next
  case (Cons c chunks)
  show ?case
  proof (cases "c = []")
    case True
    then show ?thesis using Cons.IH [OF Cons.prems] by simp
  next
    case False
    define w' where "w' = log (Write_file f c) (w\<lparr>files := (files w)(f \<mapsto> b @ c)\<rparr>)"
    have fw: "file_write f c w = (Inr (), w')"
      using Cons.prems by (simp add: file_write_def w'_def)
    have "\<forall>t. write_ok w' t" "files w' f = Some (b @ c)"
      using Cons.prems by (simp_all add: w'_def)
    from Cons.IH [OF this]
    have "save_chunks f (map Chunk chunks) w' =
        (Inr (), w'\<lparr>files := (files w')(f \<mapsto> (b @ c) @ concat chunks),
                  trace := trace w' @ map (Write_file f) (filter (\<lambda>c. c \<noteq> []) chunks)\<rparr>)" .
    moreover have "w'\<lparr>files := (files w')(f \<mapsto> (b @ c) @ concat chunks),
                  trace := trace w' @ map (Write_file f) (filter (\<lambda>c. c \<noteq> []) chunks)\<rparr>
        = w\<lparr>files := (files w)(f \<mapsto> b @ concat (c # chunks)),
             trace := trace w @ map (Write_file f) (filter (\<lambda>c. c \<noteq> []) (c # chunks))\<rparr>"
      using False by (simp add: w'_def log_def)
    moreover have "save_chunks f (map Chunk (c # chunks)) w = save_chunks f (map Chunk chunks) w'"
      using False fw by simp
    ultimately show ?thesis by (simp only:)
  qed
qed

lemma print_chunks_complete:
  "\<forall>t. write_ok w t \<Longrightarrow>
   print_chunks (map Chunk chunks) w =
     (Inr (), w\<lparr>stdout := stdout w @ concat chunks,
               trace := trace w @ map Write_stdout (filter (\<lambda>c. c \<noteq> []) chunks)\<rparr>)"
proof (induction chunks arbitrary: w)
  case Nil
  show ?case by simp
next
  case (Cons c chunks)
  show ?case
  proof (cases "c = []")
    case True
    then show ?thesis using Cons.IH [OF Cons.prems] by simp
  next
    case False
    define w' where "w' = log (Write_stdout c) (w\<lparr>stdout := stdout w @ c\<rparr>)"
    have fw: "stdout_write c w = (Inr (), w')"
      using Cons.prems by (simp add: stdout_write_def w'_def)
    have "\<forall>t. write_ok w' t"
      using Cons.prems by (simp add: w'_def)
    from Cons.IH [OF this]
    have "print_chunks (map Chunk chunks) w' =
        (Inr (), w'\<lparr>stdout := stdout w' @ concat chunks,
                  trace := trace w' @ map Write_stdout (filter (\<lambda>c. c \<noteq> []) chunks)\<rparr>)" .
    moreover have "w'\<lparr>stdout := stdout w' @ concat chunks,
                  trace := trace w' @ map Write_stdout (filter (\<lambda>c. c \<noteq> []) chunks)\<rparr>
        = w\<lparr>stdout := stdout w @ concat (c # chunks),
             trace := trace w @ map Write_stdout (filter (\<lambda>c. c \<noteq> []) (c # chunks))\<rparr>"
      using False by (simp add: w'_def log_def)
    moreover have "print_chunks (map Chunk (c # chunks)) w = print_chunks (map Chunk chunks) w'"
      using False fw by simp
    ultimately show ?thesis by (simp only:)
  qed
qed

lemma write_image_open_files:
  "open_files (snd (write_image img graph_id save output_path w)) = open_files w"
  by (simp add: write_image_def open_wb_def close_file_def save_chunks_frame print_chunks_frame
      case_prod_beta)

lemma get_by_graph_id_open_files:
  "open_files (snd (snd (get_by_graph_id self graph_id from_date to_date width height save
                           output_path w))) = open_files w"
  by (simp add: get_by_graph_id_unfold write_image_open_files case_prod_beta split: sum.splits)

text \<open>
  Claim C5. Let \<open>path\<close> be \<open>{output_path}/graph-{graph_id}.png\<close>, with the current
  working directory for \<open>output_path\<close> when none (or the empty string) is given.
  When the GET is answered, the stream delivers the chunks \<open>chunks\<close> without
  breaking, and the file system lets the file be opened and written, the call with
  \<open>save=True\<close> returns normally; the file at \<open>path\<close> holds exactly the concatenation
  of the chunks (whatever it held before) and no other file has changed; after the
  validator and the GET the actions are: open \<open>path\<close>, one write per non-empty
  chunk in the order received, close \<open>path\<close>, close the response; standard output is
  untouched. On every exit path, whatever the network, the stream and the file
  system do: the open file handles are as before the call, no zero-length chunk is
  ever written, and either no file has been opened or \<open>path\<close> has been opened once
  and closed afterwards.
\<close>

theorem save_writes_chunks_to_file:
  "(network w (trace w @ [Validate_times from_date to_date])
       (chart_request self graph_id from_date to_date width height) = Inr img
     \<and> iter_content img 8192 = map Chunk chunks
     \<and> (\<forall>t. open_ok w t (png_path (resolved_output_path w output_path) graph_id))
     \<and> (\<forall>t. write_ok w t)
    \<longrightarrow>
      fst (get_by_graph_id self graph_id from_date to_date width height True output_path w)
        = Inr ()
      \<and> files (snd (snd (get_by_graph_id self graph_id from_date to_date width height True
                           output_path w)))
        = (files w)(png_path (resolved_output_path w output_path) graph_id \<mapsto> concat chunks)
      \<and> new_events w (snd (snd (get_by_graph_id self graph_id from_date to_date width height
                                 True output_path w)))
        = [Validate_times from_date to_date,
           Http (chart_request self graph_id from_date to_date width height),
           Open_wb (png_path (resolved_output_path w output_path) graph_id)]
          @ map (Write_file (png_path (resolved_output_path w output_path) graph_id))
              (filter (\<lambda>c. c \<noteq> []) chunks)
          @ [Close_file (png_path (resolved_output_path w output_path) graph_id),
             Close_response]
      \<and> stdout (snd (snd (get_by_graph_id self graph_id from_date to_date width height True
                            output_path w))) = stdout w)
   \<and> open_files (snd (snd (get_by_graph_id self graph_id from_date to_date width height True
                             output_path w))) = open_files w
   \<and> filter is_empty_write
        (new_events w (snd (snd (get_by_graph_id self graph_id from_date to_date width height
                                   True output_path w)))) = []
   \<and> (filter is_handle_event
          (new_events w (snd (snd (get_by_graph_id self graph_id from_date to_date width height
                                     True output_path w)))) = []
        \<or> filter is_handle_event
          (new_events w (snd (snd (get_by_graph_id self graph_id from_date to_date width height
                                     True output_path w))))
          = [Open_wb (png_path (resolved_output_path w output_path) graph_id),
             Close_file (png_path (resolved_output_path w output_path) graph_id)])
   \<and> png_path (resolved_output_path w None) graph_id
        = getcwd w @ ''/graph-'' @ graph_id @ ''.png''
   \<and> (dir \<noteq> [] \<longrightarrow> png_path (resolved_output_path w (Some dir)) graph_id
        = dir @ ''/graph-'' @ graph_id @ ''.png'')"
proof -
  define path where "path = png_path (resolved_output_path w output_path) graph_id"
  define req where "req = chart_request self graph_id from_date to_date width height"
  define w2 where "w2 = log (Http req) (log (Validate_times from_date to_date) w)"
  define run where
    "run = get_by_graph_id self graph_id from_date to_date width height True output_path w"
  have good: "fst run = Inr ()
      \<and> files (snd (snd run)) = (files w)(path \<mapsto> concat chunks)
      \<and> new_events w (snd (snd run))
          = [Validate_times from_date to_date, Http req, Open_wb path]
            @ map (Write_file path) (filter (\<lambda>c. c \<noteq> []) chunks)
            @ [Close_file path, Close_response]
      \<and> stdout (snd (snd run)) = stdout w"
    if net: "network w (trace w @ [Validate_times from_date to_date]) req = Inr img"
      and body: "iter_content img 8192 = map Chunk chunks"
      and can_open: "\<forall>t. open_ok w t path"
      and can_write: "\<forall>t. write_ok w t"
  proof -
    define w3 where "w3 = log (Open_wb path) (w2\<lparr>files := (files w2)(path \<mapsto> []),
                              open_files := path # open_files w2\<rparr>)"
    have opened: "open_wb path w2 = (Inr path, w3)"
      using can_open by (simp add: open_wb_def w3_def w2_def)
    have "\<forall>t. write_ok w3 t" "files w3 path = Some []"
      using can_write by (simp_all add: w3_def w2_def)
    from save_chunks_complete [OF this, of chunks]
    have saved: "save_chunks path (map Chunk chunks) w3 =
        (Inr (), w3\<lparr>files := (files w3)(path \<mapsto> concat chunks),
                  trace := trace w3 @ map (Write_file path) (filter (\<lambda>c. c \<noteq> []) chunks)\<rparr>)"
      by simp
    have wi: "write_image img graph_id True output_path w2 =
        (Inr (), close_file path
           (w3\<lparr>files := (files w3)(path \<mapsto> concat chunks),
               trace := trace w3 @ map (Write_file path) (filter (\<lambda>c. c \<noteq> []) chunks)\<rparr>))"
      using opened saved body
      by (simp add: write_image_def w2_def resolved_output_path_def
          path_def [unfolded resolved_output_path_def, symmetric])
    have run: "run = (Inr (), self\<lparr>SESSION := \<lparr>cookies = cookies (SESSION self) @ set_cookies img\<rparr>\<rparr>,
        log Close_response (close_file path
           (w3\<lparr>files := (files w3)(path \<mapsto> concat chunks),
               trace := trace w3 @ map (Write_file path) (filter (\<lambda>c. c \<noteq> []) chunks)\<rparr>)))"
      using net wi by (simp add: run_def get_by_graph_id_unfold req_def [symmetric] w2_def [symmetric])
    have tr: "trace (snd (snd run)) = trace w @
        ([Validate_times from_date to_date, Http req, Open_wb path]
            @ map (Write_file path) (filter (\<lambda>c. c \<noteq> []) chunks)
            @ [Close_file path, Close_response])"
      by (simp add: run close_file_def w3_def w2_def)
    have "files (snd (snd run)) = (files w)(path \<mapsto> concat chunks)"
      by (simp add: run close_file_def w3_def w2_def)
    moreover have "stdout (snd (snd run)) = stdout w"
      by (simp add: run close_file_def w3_def w2_def)
    moreover have "fst run = Inr ()" by (simp add: run)
    ultimately show ?thesis using new_events_append [OF tr] by simp
  qed
  have handles: "open_files (snd (snd run)) = open_files w"
    by (simp add: run_def get_by_graph_id_open_files)
  obtain es where es: "trace (snd (snd run))
       = trace w @ Validate_times from_date to_date # Http req # es"
      "filter is_empty_write es = []"
      "filter is_handle_event es = []
        \<or> filter is_handle_event es = [Open_wb path, Close_file path]"
    unfolding run_def req_def path_def using get_by_graph_id_trace by blast
  have no_empty: "filter is_empty_write (new_events w (snd (snd run))) = []"
    using es by simp
  have paired: "filter is_handle_event (new_events w (snd (snd run))) = []
      \<or> filter is_handle_event (new_events w (snd (snd run))) = [Open_wb path, Close_file path]"
    using es by simp
  have paths: "png_path (resolved_output_path w None) graph_id
        = getcwd w @ ''/graph-'' @ graph_id @ ''.png''"
    "dir \<noteq> [] \<Longrightarrow> png_path (resolved_output_path w (Some dir)) graph_id
        = dir @ ''/graph-'' @ graph_id @ ''.png''"
    by (simp_all add: png_path_def resolved_output_path_def or_str_def)
  show ?thesis
    using good handles no_empty paired paths
    unfolding run_def req_def path_def by blast
qed

text \<open>
  Claim C6. When the GET is answered, the stream delivers the chunks \<open>chunks\<close> without
  breaking and standard output accepts every write, the call with \<open>save=False\<close>
  returns normally; standard output has grown by exactly the concatenation of the
  chunks; after the validator and the GET the actions are one write to
  \<open>sys.stdout.buffer\<close> per non-empty chunk, in the order received, and the closing of
  the response; no file is touched. On every exit path no zero-length chunk is
  written, and what standard output has received is exactly what these writes
  carry, in their order.
\<close>

theorem stdout_receives_chunks:
  "(network w (trace w @ [Validate_times from_date to_date])
       (chart_request self graph_id from_date to_date width height) = Inr img
     \<and> iter_content img 8192 = map Chunk chunks
     \<and> (\<forall>t. write_ok w t)
    \<longrightarrow>
      fst (get_by_graph_id self graph_id from_date to_date width height False output_path w)
        = Inr ()
      \<and> stdout (snd (snd (get_by_graph_id self graph_id from_date to_date width height False
                            output_path w)))
        = stdout w @ concat chunks
      \<and> new_events w (snd (snd (get_by_graph_id self graph_id from_date to_date width height
                                 False output_path w)))
        = [Validate_times from_date to_date,
           Http (chart_request self graph_id from_date to_date width height)]
          @ map Write_stdout (filter (\<lambda>c. c \<noteq> []) chunks)
          @ [Close_response]
      \<and> files (snd (snd (get_by_graph_id self graph_id from_date to_date width height False
                           output_path w))) = files w)
   \<and> filter is_empty_write
        (new_events w (snd (snd (get_by_graph_id self graph_id from_date to_date width height
                                   False output_path w)))) = []
   \<and> stdout (snd (snd (get_by_graph_id self graph_id from_date to_date width height False
                         output_path w)))
        = stdout w @ concat (map stdout_payload
            (new_events w (snd (snd (get_by_graph_id self graph_id from_date to_date width
                                       height False output_path w)))))"
proof -
  define req where "req = chart_request self graph_id from_date to_date width height"
  define w2 where "w2 = log (Http req) (log (Validate_times from_date to_date) w)"
  define run where
    "run = get_by_graph_id self graph_id from_date to_date width height False output_path w"
  have good: "fst run = Inr ()
      \<and> stdout (snd (snd run)) = stdout w @ concat chunks
      \<and> new_events w (snd (snd run))
          = [Validate_times from_date to_date, Http req]
            @ map Write_stdout (filter (\<lambda>c. c \<noteq> []) chunks) @ [Close_response]
      \<and> files (snd (snd run)) = files w"
    if net: "network w (trace w @ [Validate_times from_date to_date]) req = Inr img"
      and body: "iter_content img 8192 = map Chunk chunks"
      and can_write: "\<forall>t. write_ok w t"
  proof -
    have "\<forall>t. write_ok w2 t"
      using can_write by (simp add: w2_def)
    from print_chunks_complete [OF this, of chunks]
    have wi: "write_image img graph_id False output_path w2 =
        (Inr (), w2\<lparr>stdout := stdout w2 @ concat chunks,
                  trace := trace w2 @ map Write_stdout (filter (\<lambda>c. c \<noteq> []) chunks)\<rparr>)"
      using body by (simp add: write_image_def)
    have run: "run = (Inr (), self\<lparr>SESSION := \<lparr>cookies = cookies (SESSION self) @ set_cookies img\<rparr>\<rparr>,
        log Close_response
          (w2\<lparr>stdout := stdout w2 @ concat chunks,
              trace := trace w2 @ map Write_stdout (filter (\<lambda>c. c \<noteq> []) chunks)\<rparr>))"
      using net wi by (simp add: run_def get_by_graph_id_unfold req_def [symmetric] w2_def [symmetric])
    have tr: "trace (snd (snd run)) = trace w @
        ([Validate_times from_date to_date, Http req]
            @ map Write_stdout (filter (\<lambda>c. c \<noteq> []) chunks) @ [Close_response])"
      by (simp add: run w2_def)
    have "stdout (snd (snd run)) = stdout w @ concat chunks"
      by (simp add: run w2_def)
    moreover have "files (snd (snd run)) = files w"
      by (simp add: run w2_def)
    moreover have "fst run = Inr ()" by (simp add: run)
    ultimately show ?thesis using new_events_append [OF tr] by simp
  qed
  have always: "filter is_empty_write (new_events w (snd (snd run))) = []
      \<and> stdout (snd (snd run)) = stdout w @ concat (map stdout_payload (new_events w (snd (snd run))))"
  proof (cases "network w (trace w @ [Validate_times from_date to_date]) req")
    case (Inl e)
    then have "trace (snd (snd run)) = trace w @ [Validate_times from_date to_date, Http req]"
      "stdout (snd (snd run)) = stdout w"
      by (simp_all add: run_def get_by_graph_id_unfold req_def [symmetric])
    then show ?thesis using new_events_append [OF \<open>trace (snd (snd run)) = _\<close>] by simp
  next
    case (Inr img')
    obtain es where es: "trace (snd (print_chunks (iter_content img' 8192) w2)) = trace w2 @ es"
      "quiet es"
      "stdout (snd (print_chunks (iter_content img' 8192) w2))
         = stdout w2 @ concat (map stdout_payload es)"
      using print_chunks_trace by blast
    have tr: "trace (snd (snd run)) = trace w @
        (Validate_times from_date to_date # Http req # es @ [Close_response])"
      using Inr es(1)
      by (simp add: run_def get_by_graph_id_unfold req_def [symmetric] w2_def [symmetric]
          write_image_def case_prod_beta, simp add: w2_def)
    have out: "stdout (snd (snd run)) = stdout w @ concat (map stdout_payload es)"
      using Inr es(3)
      by (simp add: run_def get_by_graph_id_unfold req_def [symmetric] w2_def [symmetric]
          write_image_def case_prod_beta, simp add: w2_def)
    show ?thesis
      using new_events_append [OF tr] out es(2) by (simp add: quiet_def)
  qed
  show ?thesis
    using good always unfolding run_def req_def by blast
qed

section \<open>The properties on the sample world\<close>

lemmas sample_defs =
  sample_world_def sample_response_def sample_self_def

lemmas run_defs =
  init_def login_request_def login_payload_def session_post_def session_get_def
  session_request_def new_session_def log_def new_events_def
  get_by_graph_id_def validate_times_def write_image_def chart_request_def chart_url_def
  png_path_def resolved_output_path_def open_wb_def file_write_def close_file_def
  stdout_write_def

theorem init_posts_once_witness:
  "new_events sample_world (snd (init None None (Some ''secret'') sample_world)) =
     [Http \<lparr>req_method = POST, req_url = ''http://localhost/zabbix/index.php'',
            req_data = [(''name'', ''monitor''), (''password'', ''secret''),
                        (''enter'', ''Sign in'')],
            req_stream = False, req_cookies = []\<rparr>]
   \<and> status_code sample_response = 403
   \<and> fst (init None None (Some ''secret'') sample_world) =
       Inr \<lparr>BASE_URL = ''http://localhost/zabbix'',
            SESSION = \<lparr>cookies = [(''zbx_sessionid'', ''0f3a'')]\<rparr>\<rparr>
   \<and> new_events sample_world
        (snd (init (Some ''https://zbx.example.com/zabbix'') (Some ''Admin'') (Some ''secret'')
                sample_world)) =
       [Http \<lparr>req_method = POST, req_url = ''https://zbx.example.com/zabbix/index.php'',
              req_data = [(''name'', ''Admin''), (''password'', ''secret''),
                          (''enter'', ''Sign in'')],
              req_stream = False, req_cookies = []\<rparr>]"
proof -
  have net: "network sample_world (trace sample_world)
      (login_request (environ sample_world) None None (Some ''secret'')) = Inr sample_response"
    by (simp add: sample_world_def)
  have clean: "''https://zbx.example.com/zabbix'' \<noteq> []
      \<and> \<not> contains ''https://zbx.example.com/zabbix'' api_suffix
      \<and> ''Admin'' \<noteq> [] \<and> ''secret'' \<noteq> []"
    by (simp add: startswith_def api_suffix_def)
  have vals: "stored_base_url (resolved_url (environ sample_world) None) = ''http://localhost/zabbix''"
    "resolved_username (environ sample_world) None = ''monitor''"
    "resolved_password (environ sample_world) (Some ''secret'') = ''secret''"
    "status_code sample_response = 403"
    "set_cookies sample_response = [(''zbx_sessionid'', ''0f3a'')]"
    by (simp_all add: sample_defs resolve_defs string_defs)
  show ?thesis
    using net clean vals
      init_posts_once [of sample_world None None "Some ''secret''" sample_response
        "''https://zbx.example.com/zabbix''" "''Admin''" "''secret''"]
    by simp
qed

theorem chart_request_is_single_streaming_get_witness:
  "filter is_http
     (new_events sample_world
        (snd (snd (get_by_graph_id sample_self ''42'' default_from_date default_to_date
                     default_width default_height True (Some ''/tmp/out'') sample_world)))) =
     [Http \<lparr>req_method = GET,
            req_url = ''https://zbx.example.com/zabbix/chart2.php?graphid=42&from=now-1d&to=now&profileIdx=web.graphs.filter&width=1782&height=452'',
            req_data = [], req_stream = True,
            req_cookies = [(''zbx_sessionid'', ''0f3a'')]\<rparr>]
   \<and> fst (init (Some ''https://zbx.example.com/zabbix'') (Some ''Admin'') (Some ''secret'')
            sample_world) = Inr sample_self"
proof -
  have net: "network sample_world (trace sample_world)
      (login_request (environ sample_world) (Some ''https://zbx.example.com/zabbix'')
         (Some ''Admin'') (Some ''secret'')) = Inr sample_response"
    by (simp add: sample_world_def)
  have made: "fst (init (Some ''https://zbx.example.com/zabbix'') (Some ''Admin'') (Some ''secret'')
            sample_world) = Inr sample_self"
    by (simp add: run_defs sample_defs resolve_defs string_defs)
  have vals: "BASE_URL sample_self = ''https://zbx.example.com/zabbix''"
    "cookies (SESSION sample_self) = [(''zbx_sessionid'', ''0f3a'')]"
    by (simp_all add: sample_self_def)
  show ?thesis
    using net made vals
      chart_request_is_single_streaming_get [of sample_world sample_self "''42''"
        default_from_date default_to_date default_width default_height True "Some ''/tmp/out''"
        sample_world "Some ''https://zbx.example.com/zabbix''" "Some ''Admin''" "Some ''secret''"
        sample_response]
    by (simp add: default_from_date_def default_to_date_def default_width_def
        default_height_def)
qed

lemma sample_chart_request:
  "chart_request sample_self ''42'' default_from_date default_to_date default_width
     default_height =
     \<lparr>req_method = GET,
      req_url = ''https://zbx.example.com/zabbix/chart2.php?graphid=42&from=now-1d&to=now&profileIdx=web.graphs.filter&width=1782&height=452'',
      req_data = [], req_stream = True,
      req_cookies = [(''zbx_sessionid'', ''0f3a'')]\<rparr>"
  by (simp add: chart_request_def chart_url_def sample_self_def default_from_date_def
      default_to_date_def default_width_def default_height_def)

lemma sample_stream:
  "iter_content sample_response 8192 = map Chunk [[137, 80], [], [78, 71]]"
  by (simp add: sample_response_def)

theorem save_writes_chunks_to_file_witness:
  "fst (get_by_graph_id sample_self ''42'' default_from_date default_to_date default_width
          default_height True (Some ''/tmp/out'') sample_world) = Inr ()
   \<and> files (snd (snd (get_by_graph_id sample_self ''42'' default_from_date default_to_date
                        default_width default_height True (Some ''/tmp/out'') sample_world)))
        ''/tmp/out/graph-42.png'' = Some [137, 80, 78, 71]
   \<and> new_events sample_world
        (snd (snd (get_by_graph_id sample_self ''42'' default_from_date default_to_date
                     default_width default_height True (Some ''/tmp/out'') sample_world)))
      = [Validate_times ''now-1d'' ''now'',
         Http (chart_request sample_self ''42'' default_from_date default_to_date default_width
                 default_height),
         Open_wb ''/tmp/out/graph-42.png'',
         Write_file ''/tmp/out/graph-42.png'' [137, 80],
         Write_file ''/tmp/out/graph-42.png'' [78, 71],
         Close_file ''/tmp/out/graph-42.png'',
         Close_response]
   \<and> open_files (snd (snd (get_by_graph_id sample_self ''42'' default_from_date default_to_date
                             default_width default_height True (Some ''/tmp/out'') sample_world)))
      = []
   \<and> png_path (resolved_output_path sample_world None) ''42'' = ''/home/zbx/graph-42.png''"
proof -
  have net: "network sample_world (trace sample_world @ [Validate_times default_from_date default_to_date])
      (chart_request sample_self ''42'' default_from_date default_to_date default_width
         default_height) = Inr sample_response"
    by (simp add: sample_world_def)
  have fs: "(\<forall>t. open_ok sample_world t
               (png_path (resolved_output_path sample_world (Some ''/tmp/out'')) ''42''))
      \<and> (\<forall>t. write_ok sample_world t)"
    by (simp add: sample_world_def)
  have path: "png_path (resolved_output_path sample_world (Some ''/tmp/out'')) ''42''
      = ''/tmp/out/graph-42.png''"
    by (simp add: png_path_def resolved_output_path_def or_str_def)
  have vals: "getcwd sample_world = ''/home/zbx''" "open_files sample_world = []"
    "default_from_date = ''now-1d''" "default_to_date = ''now''"
    by (simp_all add: sample_world_def default_from_date_def default_to_date_def)
  have "fst (get_by_graph_id sample_self ''42'' default_from_date default_to_date default_width
          default_height True (Some ''/tmp/out'') sample_world) = Inr ()
   \<and> files (snd (snd (get_by_graph_id sample_self ''42'' default_from_date default_to_date
                        default_width default_height True (Some ''/tmp/out'') sample_world)))
      = (files sample_world)(''/tmp/out/graph-42.png'' \<mapsto> concat [[137, 80], [], [78, 71]])
   \<and> new_events sample_world
        (snd (snd (get_by_graph_id sample_self ''42'' default_from_date default_to_date
                     default_width default_height True (Some ''/tmp/out'') sample_world)))
      = [Validate_times default_from_date default_to_date,
         Http (chart_request sample_self ''42'' default_from_date default_to_date default_width
                 default_height),
         Open_wb ''/tmp/out/graph-42.png'']
        @ map (Write_file ''/tmp/out/graph-42.png'')
            (filter (\<lambda>c. c \<noteq> []) [[137, 80], [], [78, 71]])
        @ [Close_file ''/tmp/out/graph-42.png'', Close_response]
   \<and> open_files (snd (snd (get_by_graph_id sample_self ''42'' default_from_date default_to_date
                             default_width default_height True (Some ''/tmp/out'') sample_world)))
      = open_files sample_world
   \<and> png_path (resolved_output_path sample_world None) ''42''
      = getcwd sample_world @ ''/graph-'' @ ''42'' @ ''.png''"
    using net fs sample_stream
      save_writes_chunks_to_file [of sample_world default_from_date default_to_date sample_self
        "''42''" default_width default_height sample_response "[[137, 80], [], [78, 71]]"
        "Some ''/tmp/out''" "''/tmp/out''"]
    unfolding path by blast
  then show ?thesis
    by (simp add: vals)
qed

theorem stdout_receives_chunks_witness:
  "fst (get_by_graph_id sample_self ''42'' default_from_date default_to_date default_width
          default_height False None sample_world) = Inr ()
   \<and> stdout (snd (snd (get_by_graph_id sample_self ''42'' default_from_date default_to_date
                         default_width default_height False None sample_world)))
      = [137, 80, 78, 71]
   \<and> new_events sample_world
        (snd (snd (get_by_graph_id sample_self ''42'' default_from_date default_to_date
                     default_width default_height False None sample_world)))
      = [Validate_times ''now-1d'' ''now'',
         Http (chart_request sample_self ''42'' default_from_date default_to_date default_width
                 default_height),
         Write_stdout [137, 80],
         Write_stdout [78, 71],
         Close_response]"
proof -
  have net: "network sample_world (trace sample_world @ [Validate_times default_from_date default_to_date])
      (chart_request sample_self ''42'' default_from_date default_to_date default_width
         default_height) = Inr sample_response"
    by (simp add: sample_world_def)
  have fs: "\<forall>t. write_ok sample_world t"
    by (simp add: sample_world_def)
  have vals: "stdout sample_world = []"
    "default_from_date = ''now-1d''" "default_to_date = ''now''"
    by (simp_all add: sample_world_def default_from_date_def default_to_date_def)
  have "fst (get_by_graph_id sample_self ''42'' default_from_date default_to_date default_width
          default_height False None sample_world) = Inr ()
   \<and> stdout (snd (snd (get_by_graph_id sample_self ''42'' default_from_date default_to_date
                         default_width default_height False None sample_world)))
      = stdout sample_world @ concat [[137, 80], [], [78, 71]]
   \<and> new_events sample_world
        (snd (snd (get_by_graph_id sample_self ''42'' default_from_date default_to_date
                     default_width default_height False None sample_world)))
      = [Validate_times default_from_date default_to_date,
         Http (chart_request sample_self ''42'' default_from_date default_to_date default_width
                 default_height)]
        @ map Write_stdout (filter (\<lambda>c. c \<noteq> []) [[137, 80], [], [78, 71]])
        @ [Close_response]"
    using net fs sample_stream
      stdout_receives_chunks [of sample_world default_from_date default_to_date sample_self
        "''42''" default_width default_height sample_response "[[137, 80], [], [78, 71]]" None]
    by blast
  then show ?thesis
    by (simp add: vals)
qed

text \<open>
  An exception during streaming: the call raises, the file holds what was written
  before, and the handle is closed.
\<close>

lemma broken_stream_closes_file:
  "fst (get_by_graph_id sample_self ''42'' ''now-1d'' ''now'' ''1782'' ''452'' True
          (Some ''/tmp/out'') broken_world) = Inl RequestException
   \<and> files (snd (snd (get_by_graph_id sample_self ''42'' ''now-1d'' ''now'' ''1782'' ''452'' True
                        (Some ''/tmp/out'') broken_world))) ''/tmp/out/graph-42.png''
      = Some [137, 80]
   \<and> open_files (snd (snd (get_by_graph_id sample_self ''42'' ''now-1d'' ''now'' ''1782'' ''452''
                             True (Some ''/tmp/out'') broken_world))) = []
   \<and> filter is_handle_event
        (new_events broken_world
          (snd (snd (get_by_graph_id sample_self ''42'' ''now-1d'' ''now'' ''1782'' ''452'' True
                       (Some ''/tmp/out'') broken_world))))
      = [Open_wb ''/tmp/out/graph-42.png'', Close_file ''/tmp/out/graph-42.png'']"
  by (simp add: run_defs sample_defs broken_world_def or_str_def)

text \<open>
  Claim C3 fails on the code. The condition of the conditional expression is the
  wrong way round: exactly the URLs that end with \<open>/api_jsonrpc.php\<close> are left as
  they are, so the stored base URL ends with the suffix and the login goes to
  \<open>.../api_jsonrpc.php/index.php\<close>. A URL that does not end with the suffix can also
  be stored as one that does, when deleting an inner occurrence joins the two halves
  of another.
\<close>

theorem stored_base_url_keeps_suffix:
  "fst (init (Some ''http://localhost/zabbix/api_jsonrpc.php'') None None sample_world)
     = Inr \<lparr>BASE_URL = ''http://localhost/zabbix/api_jsonrpc.php'',
            SESSION = \<lparr>cookies = [(''zbx_sessionid'', ''0f3a'')]\<rparr>\<rparr>
   \<and> endswith (stored_base_url ''http://localhost/zabbix/api_jsonrpc.php'') ''/api_jsonrpc.php''
   \<and> new_events sample_world
        (snd (init (Some ''http://localhost/zabbix/api_jsonrpc.php'') None None sample_world))
     = [Http \<lparr>req_method = POST,
              req_url = ''http://localhost/zabbix/api_jsonrpc.php/index.php'',
              req_data = [(''name'', ''monitor''), (''password'', ''zabbix''),
                          (''enter'', ''Sign in'')],
              req_stream = False, req_cookies = []\<rparr>]
   \<and> stored_base_url ''http://h/api_json/api_jsonrpc.phprpc.php'' = ''http://h/api_jsonrpc.php''
   \<and> endswith (stored_base_url ''http://h/api_json/api_jsonrpc.phprpc.php'') ''/api_jsonrpc.php''"
  by (simp add: run_defs sample_defs resolve_defs string_defs)

theorem get_by_itemids_not_implemented_witness:
  "fst (get_by_itemids sample_self [''23296'', ''23297''] (Type_int 1) ''now-1d'' ''now''
          ''1782'' ''452'' False None sample_world)
     = Inl (NotImplementedError ''Not yet added'')
   \<and> fst (get_by_itemids sample_self [] (Type_str ''0'') ''now-7d'' ''now'' ''800'' ''200''
            True (Some ''/tmp'') broken_world)
     = Inl (NotImplementedError ''Not yet added'')"
  using get_by_itemids_not_implemented [of sample_self "[''23296'', ''23297'']" "Type_int 1"
      "''now-1d''" "''now''" "''1782''" "''452''" False None sample_world
      sample_self "[]" "Type_str ''0''" "''now-7d''" "''now''" "''800''" "''200''" True
      "Some ''/tmp''" broken_world]
  by metis

theorem validate_times_is_noop_called_first_witness:
  "fst (validate_times sample_self ''not a date'' '''' sample_world) = Inr ()
   \<and> take 2 (new_events sample_world
        (snd (snd (get_by_graph_id sample_self ''42'' ''not a date'' '''' ''1782'' ''452'' False
                     None sample_world))))
     = [Validate_times ''not a date'' '''',
        Http \<lparr>req_method = GET,
              req_url = ''https://zbx.example.com/zabbix/chart2.php?graphid=42&from=not a date&to=&profileIdx=web.graphs.filter&width=1782&height=452'',
              req_data = [], req_stream = True,
              req_cookies = [(''zbx_sessionid'', ''0f3a'')]\<rparr>]"
  using validate_times_is_noop_called_first [of sample_self "''not a date''" "''''" sample_world
      "''42''" "''1782''" "''452''" False None]
  by (simp add: chart_request_def chart_url_def sample_self_def)

end
